theory Spec2Isabelle
  imports Complex_Main
begin

section \<open>Values of the Python program\<close>

text \<open>
  The module \<^verbatim>\<open>sun_angles/calculate_daylight.py\<close> holds one function,
  \<^verbatim>\<open>calculate_daylight\<close>, whose five arguments all default to \<^verbatim>\<open>None\<close>. An optional
  argument is an \<open>option\<close>: \<open>None\<close> is Python's \<^verbatim>\<open>None\<close>.

  A numeric argument is a scalar or an elementwise container. The function only ever asks
  whether a value is a \<^verbatim>\<open>list\<close>, so a \<^verbatim>\<open>Raster\<close> is represented like an \<^verbatim>\<open>np.ndarray\<close>, and
  arrays are one-dimensional. Python floats are idealised as real numbers.
\<close>

datatype 'a container = Scalar 'a | NDArray "'a list"

text \<open>\<^verbatim>\<open>day_of_year\<close> may also arrive as a plain Python list (line 79 tests for it).\<close>

datatype doy_arg = DoyValue "int container" | DoyList "int list"

record datetime =
  year :: int
  month :: int
  day :: int
  hour :: int
  minute :: int
  second :: int

text \<open>One timestamp is a string or a structured datetime (line 68 tests for \<^verbatim>\<open>str\<close>).\<close>

datatype timeval = Str string | Datetime datetime

text \<open>\<^verbatim>\<open>time_UTC\<close> is a single timestamp, a list or an ndarray (line 73 tests for the last two).\<close>

datatype time_arg = TimeScalar timeval | TimeList "timeval list" | TimeArray "timeval list"

text \<open>The geometry descriptor is read through one attribute, \<^verbatim>\<open>geometry.lat\<close>.\<close>

record SpatialGeometry =
  geometry_lat :: "real container"

text \<open>
  Exceptions are values. \<open>UnparsableTimestamp\<close> carries the message of the parser's exception,
  \<open>TypeError\<close> is Python's error for arithmetic on \<^verbatim>\<open>None\<close>, \<open>BroadcastError\<close> is numpy's error
  for arrays of incompatible shape. \<open>MissingInput\<close> is the error the specification names;
  no statement of the source raises it.
\<close>

datatype error = MissingInput | UnparsableTimestamp string | TypeError | BroadcastError

section \<open>The timestamp collaborators\<close>

text \<open>
  Modelled from the spec: the external timestamp utility
  \<^verbatim>\<open>ordinal_day(datetime) -> integer[1..366]\<close>, in the source
  \<^verbatim>\<open>pd.Timestamp(val).dayofyear\<close>: the ordinal day of a date within its calendar year
  (1 for January 1), in the Gregorian calendar. The range of years pandas can represent is
  not modelled.
\<close>

definition is_leap_year :: "int \<Rightarrow> bool" where
  "is_leap_year y = (if y mod 400 = 0 then True else if y mod 100 = 0 then False else y mod 4 = 0)"

definition days_in_months :: "int \<Rightarrow> int list" where
  "days_in_months y =
     [31, if is_leap_year y then 29 else 28, 31, 30, 31, 30, 31, 31, 30, 31, 30, 31]"

definition dayofyear :: "datetime \<Rightarrow> int" where
  "dayofyear dt = sum_list (take (nat (month dt - 1)) (days_in_months (year dt))) + day dt"

text \<open>
  The nested function \<^verbatim>\<open>to_doy\<close> (lines 67 to 70). The string parser \<^verbatim>\<open>parser.parse\<close> of
  \<^verbatim>\<open>dateutil\<close> is an external library: it is the parameter \<open>parse\<close>, which returns the
  datetime or, on the left, the message of the exception it raises. \<^verbatim>\<open>to_doy\<close> has no
  handler, so that exception leaves it as it is.
\<close>

definition to_doy :: "(string \<Rightarrow> string + datetime) \<Rightarrow> timeval \<Rightarrow> error + int" where
  "to_doy parse val =
     (case val of
        Str s \<Rightarrow>
          (case parse s of
             Inl msg \<Rightarrow> Inl (UnparsableTimestamp msg)
           | Inr dt \<Rightarrow> Inr (dayofyear dt))
      | Datetime dt \<Rightarrow> Inr (dayofyear dt))"

text \<open>
  The comprehension \<^verbatim>\<open>[to_doy(t) for t in time_UTC]\<close> of line 74: the elements are
  converted from left to right and the first exception ends the loop.
\<close>

fun to_doy_each :: "(string \<Rightarrow> string + datetime) \<Rightarrow> timeval list \<Rightarrow> error + int list" where
  "to_doy_each parse [] = Inr []"
| "to_doy_each parse (t # ts) =
     (case to_doy parse t of
        Inl e \<Rightarrow> Inl e
      | Inr n \<Rightarrow>
          (case to_doy_each parse ts of
             Inl e \<Rightarrow> Inl e
           | Inr ns \<Rightarrow> Inr (n # ns)))"

section \<open>The input resolver\<close>

text \<open>
  \<^verbatim>\<open>calculate_daylight\<close> (lines 11 to 87). The two functions it imports from sibling modules,
  \<^verbatim>\<open>SHA_deg_from_DOY_lat\<close> and \<^verbatim>\<open>daylight_from_SHA\<close>, are the parameters \<open>engine\<close> and
  \<open>converter\<close>; either may raise. The body follows the source line by line:
  lines 62-63 resolve the latitude, lines 66-76 the day of year, lines 79-80 turn a list
  into an array, line 82 calls the engine and line 85 the converter.
\<close>

definition calculate_daylight ::
  "(string \<Rightarrow> string + datetime) \<Rightarrow>
   (int container option \<Rightarrow> real container option \<Rightarrow> error + real container) \<Rightarrow>
   (real container \<Rightarrow> error + real container) \<Rightarrow>
   doy_arg option \<Rightarrow> real container option \<Rightarrow> real container option \<Rightarrow>
   time_arg option \<Rightarrow> SpatialGeometry option \<Rightarrow> error + real container" where
  "calculate_daylight parse engine converter day_of_year lat SHA_deg time_UTC geometry =
     (case SHA_deg of
        Some sha \<Rightarrow> converter sha
      | None \<Rightarrow>
          (let lat1 = (case (lat, geometry) of
                         (None, Some g) \<Rightarrow> Some (geometry_lat g)
                       | _ \<Rightarrow> lat);
               doy1 = (case (day_of_year, time_UTC) of
                         (None, Some (TimeList ts)) \<Rightarrow>
                           map_sum id (\<lambda>ns. Some (DoyValue (NDArray ns))) (to_doy_each parse ts)
                       | (None, Some (TimeArray ts)) \<Rightarrow>
                           map_sum id (\<lambda>ns. Some (DoyValue (NDArray ns))) (to_doy_each parse ts)
                       | (None, Some (TimeScalar t)) \<Rightarrow>
                           map_sum id (\<lambda>n. Some (DoyValue (Scalar n))) (to_doy parse t)
                       | _ \<Rightarrow> Inr day_of_year)
           in case doy1 of
                Inl e \<Rightarrow> Inl e
              | Inr d \<Rightarrow>
                  (let doy2 = (case d of
                                 None \<Rightarrow> None
                               | Some (DoyList xs) \<Rightarrow> Some (NDArray xs)
                               | Some (DoyValue c) \<Rightarrow> Some c)
                   in case engine doy2 lat1 of
                        Inl e \<Rightarrow> Inl e
                      | Inr sha \<Rightarrow> converter sha)))"

section \<open>The engine and the converter\<close>

text \<open>
  The resolver imports \<^verbatim>\<open>SHA_deg_from_DOY_lat\<close> and \<^verbatim>\<open>daylight_from_SHA\<close> from sibling
  modules (lines 8 and 9). The definitions of this section follow what sections 4.1 and 4.2
  of the specification say about them.
\<close>

definition radians :: "real \<Rightarrow> real" where
  "radians x = x * pi / 180"

definition degrees :: "real \<Rightarrow> real" where
  "degrees x = x * 180 / pi"

definition solar_declination_deg :: "int \<Rightarrow> real" where
  "solar_declination_deg d = 23.45 * sin (radians (360 / 365 * (real_of_int d - 81)))"

definition cos_hour_angle :: "int \<Rightarrow> real \<Rightarrow> real" where
  "cos_hour_angle d l = - tan (radians l) * tan (radians (solar_declination_deg d))"

definition clamp :: "real \<Rightarrow> real \<Rightarrow> real \<Rightarrow> real" where
  "clamp lo hi x = max lo (min hi x)"

text \<open>
  Modelled from the spec: the scalar contract \<^verbatim>\<open>sha_deg(day_of_year, latitude) -> SHA_deg\<close>
  of section 4.1, steps 1 to 4: declination, cosine of the hour angle, clamping to
  \<open>[-1, 1]\<close>, inverse cosine in degrees.
\<close>

definition sha_deg :: "int \<Rightarrow> real \<Rightarrow> real" where
  "sha_deg d l = degrees (arccos (clamp (- 1) 1 (cos_hour_angle d l)))"

text \<open>
  Modelled from the spec: the elementwise container abstraction of section 6, with the
  shape invariant of section 3. A scalar combines with every element of an array; two arrays
  combine position by position when their lengths agree or one of them has length one, and
  are otherwise not broadcast-compatible.
\<close>

fun broadcast2 :: "('a \<Rightarrow> 'b \<Rightarrow> 'c) \<Rightarrow> 'a container \<Rightarrow> 'b container \<Rightarrow> error + 'c container" where
  "broadcast2 f (Scalar x) (Scalar y) = Inr (Scalar (f x y))"
| "broadcast2 f (Scalar x) (NDArray ys) = Inr (NDArray (map (f x) ys))"
| "broadcast2 f (NDArray xs) (Scalar y) = Inr (NDArray (map (\<lambda>x. f x y) xs))"
| "broadcast2 f (NDArray xs) (NDArray ys) =
     (if length xs = length ys then Inr (NDArray (map2 f xs ys))
      else (case (xs, ys) of
              ([x], _) \<Rightarrow> Inr (NDArray (map (f x) ys))
            | (_, [y]) \<Rightarrow> Inr (NDArray (map (\<lambda>x. f x y) xs))
            | _ \<Rightarrow> Inl BroadcastError))"

text \<open>
  Modelled from the spec: the module \<^verbatim>\<open>SHA_deg_from_DOY_lat\<close>, the Declination/SHA Engine
  of section 4.1, elementwise over containers. The specification defines it on numbers
  only; its formula subtracts from the day of year and takes the tangent of the latitude,
  and Python arithmetic on \<^verbatim>\<open>None\<close> raises \<^verbatim>\<open>TypeError\<close>.
\<close>

definition SHA_deg_from_DOY_lat ::
  "int container option \<Rightarrow> real container option \<Rightarrow> error + real container" where
  "SHA_deg_from_DOY_lat DOY latitude =
     (case DOY of
        None \<Rightarrow> Inl TypeError
      | Some d \<Rightarrow>
          (case latitude of
             None \<Rightarrow> Inl TypeError
           | Some l \<Rightarrow> broadcast2 sha_deg d l))"

text \<open>
  Modelled from the spec: the scalar contract \<^verbatim>\<open>daylight_hours(SHA_deg) -> hours\<close> of
  section 4.2, \<open>hours = (2 / 15) \<times> SHA_deg\<close>.
\<close>

definition daylight_hours :: "real \<Rightarrow> real" where
  "daylight_hours s = 2 / 15 * s"

text \<open>
  Modelled from the spec: the module \<^verbatim>\<open>daylight_from_SHA\<close>, the Daylight Converter of
  section 4.2, elementwise over containers; it validates nothing and raises nothing.
\<close>

definition daylight_from_SHA :: "real container \<Rightarrow> error + real container" where
  "daylight_from_SHA SHA_deg = Inr (map_container daylight_hours SHA_deg)"

section \<open>A parser for calendar dates\<close>

definition digit :: "char \<Rightarrow> int option" where
  "digit c = (let n = (of_char c :: nat) in if 48 \<le> n \<and> n \<le> 57 then Some (int n - 48) else None)"

fun number :: "int \<Rightarrow> string \<Rightarrow> int option" where
  "number acc [] = Some acc"
| "number acc (c # cs) =
     (case digit c of
        None \<Rightarrow> None
      | Some v \<Rightarrow> number (10 * acc + v) cs)"

definition valid_date :: "int \<Rightarrow> int \<Rightarrow> int \<Rightarrow> bool" where
  "valid_date y m d =
     (if 1 \<le> m \<and> m \<le> 12 \<and> 1 \<le> d then d \<le> days_in_months y ! nat (m - 1) else False)"

text \<open>
  Modelled from the spec: the external timestamp parser \<^verbatim>\<open>parse(value) -> datetime\<close> of
  section 6, for calendar dates written \<^verbatim>\<open>YYYY-MM-DD\<close> as in the specification's examples;
  the result is midnight of that date, and any other string is reported with the message
  of the parser's exception. It serves to run the resolver on concrete timestamps; the
  resolver itself takes any parser.
\<close>

definition parse_iso_date :: "string \<Rightarrow> string + datetime" where
  "parse_iso_date s =
     (case s of
        [y1, y2, y3, y4, s1, m1, m2, s2, d1, d2] \<Rightarrow>
          (if s1 = CHR ''-'' \<and> s2 = CHR ''-'' then
             (case (number 0 [y1, y2, y3, y4], number 0 [m1, m2], number 0 [d1, d2]) of
                (Some y, Some m, Some d) \<Rightarrow>
                  (if valid_date y m d
                   then Inr \<lparr>year = y, month = m, day = d, hour = 0, minute = 0, second = 0\<rparr>
                   else Inl (''Unknown string format: '' @ s))
              | _ \<Rightarrow> Inl (''Unknown string format: '' @ s))
           else Inl (''Unknown string format: '' @ s))
      | _ \<Rightarrow> Inl (''Unknown string format: '' @ s))"

section \<open>Reading a timestamp\<close>

text \<open>
  A timestamp \<open>v\<close> reads as the datetime \<open>dt\<close> when it is that datetime, or a string that
  the parser turns into it.
\<close>

definition reads_as :: "(string \<Rightarrow> string + datetime) \<Rightarrow> timeval \<Rightarrow> datetime \<Rightarrow> bool" where
  "reads_as parse v dt = (case v of Str s \<Rightarrow> parse s = Inr dt | Datetime d \<Rightarrow> d = dt)"

text \<open>The two dates of the specification's examples, at midnight.\<close>

definition june_21 :: datetime where
  "june_21 = \<lparr>year = 2025, month = 6, day = 21, hour = 0, minute = 0, second = 0\<rparr>"

definition december_21 :: datetime where
  "december_21 = \<lparr>year = 2025, month = 12, day = 21, hour = 0, minute = 0, second = 0\<rparr>"

section \<open>Properties of the collaborators\<close>

lemma dayofyear_range:
  assumes "valid_date (year dt) (month dt) (day dt)"
  shows "1 \<le> dayofyear dt \<and> dayofyear dt \<le> 366"
proof -
  from assms have m: "1 \<le> month dt" "month dt \<le> 12" and d: "1 \<le> day dt"
    and u: "day dt \<le> days_in_months (year dt) ! nat (month dt - 1)"
    by (simp_all add: valid_date_def split: if_splits)
  from m have "month dt \<in> {1, 2, 3, 4, 5, 6, 7, 8, 9, 10, 11, 12}" by simp arith
  then show ?thesis
    using d u by (auto simp: dayofyear_def days_in_months_def split: if_splits)
qed

lemmas iso_simps = parse_iso_date_def digit_def valid_date_def days_in_months_def is_leap_year_def

lemma parse_june_21: "parse_iso_date ''2025-06-21'' = Inr june_21"
  by (simp add: iso_simps june_21_def)

lemma parse_december_21: "parse_iso_date ''2025-12-21'' = Inr december_21"
  by (simp add: iso_simps december_21_def)

lemma parse_junk: "parse_iso_date ''junk'' = Inl ''Unknown string format: junk''"
  by (simp add: parse_iso_date_def)

lemma dayofyear_june_21: "dayofyear june_21 = 172"
  by (simp add: dayofyear_def june_21_def days_in_months_def is_leap_year_def)

lemma dayofyear_december_21: "dayofyear december_21 = 355"
  by (simp add: dayofyear_def december_21_def days_in_months_def is_leap_year_def)

lemma to_doy_reads_as: "reads_as parse v dt \<Longrightarrow> to_doy parse v = Inr (dayofyear dt)"
  by (cases v) (simp_all add: reads_as_def to_doy_def)

lemma to_doy_each_reads_as:
  "list_all2 (reads_as parse) vs dts \<Longrightarrow> to_doy_each parse vs = Inr (map dayofyear dts)"
  by (induction vs dts rule: list_all2_induct) (simp_all add: to_doy_reads_as)

text \<open>The comprehension stops at the first string the parser rejects, with that error.\<close>

lemma to_doy_each_first_failure:
  assumes "list_all2 (reads_as parse) pre dts" and "parse s = Inl msg"
  shows "to_doy_each parse (pre @ Str s # post) = Inl (UnparsableTimestamp msg)"
  using assms(1)
proof (induction pre dts rule: list_all2_induct)
  case Nil
  show ?case using assms(2) by (simp add: to_doy_def)
next
  case (Cons v vs d ds)
  then show ?case by (simp add: to_doy_reads_as)
qed

text \<open>Every error of the two conversions is the parser's.\<close>

lemma to_doy_error: "to_doy parse v = Inl e \<Longrightarrow> \<exists>msg. e = UnparsableTimestamp msg"
  by (auto simp: to_doy_def split: timeval.splits sum.splits)

lemma to_doy_each_error: "to_doy_each parse vs = Inl e \<Longrightarrow> \<exists>msg. e = UnparsableTimestamp msg"
  by (induction vs) (auto split: sum.splits dest: to_doy_error)

lemma engine_rejects_None:
  "SHA_deg_from_DOY_lat None l = Inl TypeError" "SHA_deg_from_DOY_lat d None = Inl TypeError"
  by (simp_all add: SHA_deg_from_DOY_lat_def split: option.splits)

lemma engine_on_scalars:
  "SHA_deg_from_DOY_lat (Some (Scalar d)) (Some (Scalar l)) = Inr (Scalar (sha_deg d l))"
  by (simp add: SHA_deg_from_DOY_lat_def)

lemma engine_on_array_and_scalar:
  "SHA_deg_from_DOY_lat (Some (NDArray ds)) (Some (Scalar l))
     = Inr (NDArray (map (\<lambda>d. sha_deg d l) ds))"
  by (simp add: SHA_deg_from_DOY_lat_def)

text \<open>The clamp keeps the argument of the inverse cosine in \<open>[-1, 1]\<close>, whatever the inputs.\<close>

lemma sha_deg_bounds: "0 \<le> sha_deg d l \<and> sha_deg d l \<le> 180"
proof -
  let ?c = "clamp (- 1) 1 (cos_hour_angle d l)"
  have c: "- 1 \<le> ?c" "?c \<le> 1" by (simp_all add: clamp_def)
  have "0 \<le> arccos ?c" "arccos ?c \<le> pi"
    using c by (simp_all add: arccos_lbound arccos_ubound)
  then show ?thesis
    by (simp add: sha_deg_def degrees_def field_simps)
qed

lemma daylight_bounds: "0 \<le> daylight_hours (sha_deg d l) \<and> daylight_hours (sha_deg d l) \<le> 24"
  using sha_deg_bounds [of d l] by (simp add: daylight_hours_def)

section \<open>The paths through the resolver\<close>

text \<open>
  One equation for each way the arguments can arrive. The latitude handed to the engine is
  \<open>lat\<close> when supplied, else \<open>geometry.lat\<close> when there is a geometry, else \<^verbatim>\<open>None\<close>.
\<close>

lemma SHA_supplied:
  "calculate_daylight parse engine converter day_of_year lat (Some x) time_UTC geometry = converter x"
  by (simp add: calculate_daylight_def)

lemma doy_supplied_value:
  "calculate_daylight parse engine converter (Some (DoyValue v)) lat None time_UTC geometry =
     (case engine (Some v)
             (case lat of None \<Rightarrow> map_option geometry_lat geometry | Some l \<Rightarrow> Some l) of
        Inl e \<Rightarrow> Inl e
      | Inr sha \<Rightarrow> converter sha)"
  by (cases lat; cases geometry) (simp_all add: calculate_daylight_def)

lemma doy_supplied_list:
  "calculate_daylight parse engine converter (Some (DoyList xs)) lat None time_UTC geometry =
     (case engine (Some (NDArray xs))
             (case lat of None \<Rightarrow> map_option geometry_lat geometry | Some l \<Rightarrow> Some l) of
        Inl e \<Rightarrow> Inl e
      | Inr sha \<Rightarrow> converter sha)"
  by (cases lat; cases geometry) (simp_all add: calculate_daylight_def)

lemma nothing_resolved:
  "calculate_daylight parse engine converter None lat None None geometry =
     (case engine None
             (case lat of None \<Rightarrow> map_option geometry_lat geometry | Some l \<Rightarrow> Some l) of
        Inl e \<Rightarrow> Inl e
      | Inr sha \<Rightarrow> converter sha)"
  by (cases lat; cases geometry) (simp_all add: calculate_daylight_def)

lemma time_scalar:
  "calculate_daylight parse engine converter None lat None (Some (TimeScalar v)) geometry =
     (case to_doy parse v of
        Inl e \<Rightarrow> Inl e
      | Inr n \<Rightarrow>
          (case engine (Some (Scalar n))
                  (case lat of None \<Rightarrow> map_option geometry_lat geometry | Some l \<Rightarrow> Some l) of
             Inl e \<Rightarrow> Inl e
           | Inr sha \<Rightarrow> converter sha))"
  by (cases lat; cases geometry; cases "to_doy parse v") (simp_all add: calculate_daylight_def)

lemma time_list:
  "calculate_daylight parse engine converter None lat None (Some (TimeList vs)) geometry =
     (case to_doy_each parse vs of
        Inl e \<Rightarrow> Inl e
      | Inr ns \<Rightarrow>
          (case engine (Some (NDArray ns))
                  (case lat of None \<Rightarrow> map_option geometry_lat geometry | Some l \<Rightarrow> Some l) of
             Inl e \<Rightarrow> Inl e
           | Inr sha \<Rightarrow> converter sha))"
  by (cases lat; cases geometry; cases "to_doy_each parse vs") (simp_all add: calculate_daylight_def)

lemma time_array:
  "calculate_daylight parse engine converter None lat None (Some (TimeArray vs)) geometry =
     (case to_doy_each parse vs of
        Inl e \<Rightarrow> Inl e
      | Inr ns \<Rightarrow>
          (case engine (Some (NDArray ns))
                  (case lat of None \<Rightarrow> map_option geometry_lat geometry | Some l \<Rightarrow> Some l) of
             Inl e \<Rightarrow> Inl e
           | Inr sha \<Rightarrow> converter sha))"
  by (cases lat; cases geometry; cases "to_doy_each parse vs") (simp_all add: calculate_daylight_def)

lemma scalar_pipeline:
  "calculate_daylight parse SHA_deg_from_DOY_lat daylight_from_SHA (Some (DoyValue (Scalar d)))
     (Some (Scalar l)) None time_UTC geometry = Inr (Scalar (daylight_hours (sha_deg d l)))"
  by (simp add: doy_supplied_value engine_on_scalars daylight_from_SHA_def)

section \<open>Missing inputs\<close>

text \<open>
  Claim C1, as stated: \<^verbatim>\<open>calculate_daylight\<close> raises \<open>MissingInput\<close> whenever \<^verbatim>\<open>SHA_deg\<close> is
  absent and neither \<^verbatim>\<open>lat\<close> nor \<^verbatim>\<open>geometry\<close> is supplied, or neither \<^verbatim>\<open>day_of_year\<close> nor
  \<^verbatim>\<open>time_UTC\<close> is supplied; in particular with no arguments at all.

  The source has no such check: lines 60 to 82 hold no \<^verbatim>\<open>raise\<close>, and line 82 calls the
  engine with whatever was resolved. With no arguments the engine receives \<^verbatim>\<open>None\<close> twice
  and the error the caller sees is the engine's \<open>TypeError\<close>, not \<open>MissingInput\<close>. And with
  neither \<^verbatim>\<open>lat\<close> nor \<^verbatim>\<open>geometry\<close> but a \<^verbatim>\<open>time_UTC\<close> string that does not parse, the caller
  sees the parser's error: lines 66 to 76 run before anything looks at the latitude.
\<close>

theorem C1_no_arguments_counterexample:
  "calculate_daylight parse_iso_date SHA_deg_from_DOY_lat daylight_from_SHA None None None None None
     = Inl TypeError
   \<and> calculate_daylight parse_iso_date SHA_deg_from_DOY_lat daylight_from_SHA None None None None None
     \<noteq> Inl MissingInput
   \<and> calculate_daylight parse_iso_date SHA_deg_from_DOY_lat daylight_from_SHA None None None
       (Some (TimeScalar (Str ''junk''))) None
     = Inl (UnparsableTimestamp ''Unknown string format: junk'')"
  by (simp add: nothing_resolved engine_rejects_None time_scalar to_doy_def parse_junk)

text \<open>
  Claim C1, amended: when \<^verbatim>\<open>SHA_deg\<close> is absent and neither \<^verbatim>\<open>lat\<close> nor \<^verbatim>\<open>geometry\<close>, or
  neither \<^verbatim>\<open>day_of_year\<close> nor \<^verbatim>\<open>time_UTC\<close>, is supplied, the call fails, but not with an error
  of the resolver's own: the resolver hands \<^verbatim>\<open>None\<close> to the engine, and the caller sees the
  engine's \<open>TypeError\<close>, unless \<^verbatim>\<open>day_of_year\<close> is absent and a \<^verbatim>\<open>time_UTC\<close> string fails to
  parse first, in which case the caller sees the parser's error. With no arguments at all the
  result is whatever the engine does with two \<^verbatim>\<open>None\<close>s, for every engine.
\<close>

theorem C1_missing_input_reaches_engine:
  assumes "(lat = None \<and> geometry = None) \<or> (day_of_year = None \<and> time_UTC = None)"
  shows "(calculate_daylight parse SHA_deg_from_DOY_lat converter day_of_year lat None time_UTC geometry
            = Inl TypeError
          \<or> (day_of_year = None \<and>
              (\<exists>msg. calculate_daylight parse SHA_deg_from_DOY_lat converter day_of_year lat None
                        time_UTC geometry = Inl (UnparsableTimestamp msg))))
         \<and> calculate_daylight parse engine converter None None None None None
            = (case engine None None of Inl e \<Rightarrow> Inl e | Inr sha \<Rightarrow> converter sha)"
proof -
  let ?r = "calculate_daylight parse SHA_deg_from_DOY_lat converter day_of_year lat None
              time_UTC geometry"
  have "?r = Inl TypeError \<or> (day_of_year = None \<and> (\<exists>msg. ?r = Inl (UnparsableTimestamp msg)))"
  proof (cases day_of_year)
    case (Some d)
    then show ?thesis using assms
      by (cases d) (simp_all add: doy_supplied_value doy_supplied_list engine_rejects_None)
  next
    case None
    show ?thesis
    proof (cases time_UTC)
      case None
      with \<open>day_of_year = None\<close> show ?thesis
        by (simp add: nothing_resolved engine_rejects_None)
    next
      case (Some t)
      with \<open>day_of_year = None\<close> assms have l: "lat = None" "geometry = None" by auto
      show ?thesis
      proof (cases t)
        case (TimeScalar v)
        then show ?thesis using None Some l
          by (cases "to_doy parse v")
            (auto simp: time_scalar engine_rejects_None dest: to_doy_error)
      next
        case (TimeList vs)
        then show ?thesis using None Some l
          by (cases "to_doy_each parse vs")
            (auto simp: time_list engine_rejects_None dest: to_doy_each_error)
      next
        case (TimeArray vs)
        then show ?thesis using None Some l
          by (cases "to_doy_each parse vs")
            (auto simp: time_array engine_rejects_None dest: to_doy_each_error)
      qed
    qed
  qed
  then show ?thesis by (simp add: nothing_resolved)
qed

theorem C1_missing_input_reaches_engine_witness:
  "calculate_daylight parse_iso_date SHA_deg_from_DOY_lat daylight_from_SHA
     (Some (DoyValue (Scalar 172))) None None None None = Inl TypeError"
  using C1_missing_input_reaches_engine [where lat = None and geometry = None
          and day_of_year = "Some (DoyValue (Scalar 172))" and time_UTC = None
          and parse = parse_iso_date and converter = daylight_from_SHA
          and engine = SHA_deg_from_DOY_lat]
  by simp

section \<open>A supplied sunrise hour angle\<close>

text \<open>
  Claim C2: for every supplied \<^verbatim>\<open>SHA_deg\<close> value \<open>x\<close>, \<^verbatim>\<open>calculate_daylight\<close> returns exactly
  what the converter returns on \<open>x\<close>, that is \<open>(2 / 15) \<times> x\<close> hours, elementwise on an array.
  Every other argument is ignored: the equation holds for every \<^verbatim>\<open>day_of_year\<close>, \<^verbatim>\<open>lat\<close>,
  \<^verbatim>\<open>time_UTC\<close> and \<^verbatim>\<open>geometry\<close>, and for every parser and engine, also ones that always
  raise, so no timestamp is parsed and the engine is not invoked.
\<close>

theorem C2_supplied_SHA_short_circuits:
  "calculate_daylight parse engine converter day_of_year lat (Some x) time_UTC geometry = converter x
   \<and> calculate_daylight parse engine daylight_from_SHA day_of_year lat (Some (Scalar s)) time_UTC geometry
       = Inr (Scalar (2 / 15 * s))
   \<and> calculate_daylight parse engine daylight_from_SHA day_of_year lat (Some (NDArray ss)) time_UTC geometry
       = Inr (NDArray (map (\<lambda>s. 2 / 15 * s) ss))"
  by (simp add: SHA_supplied daylight_from_SHA_def daylight_hours_def cong: map_cong)

theorem C2_supplied_SHA_short_circuits_witness:
  "calculate_daylight parse_iso_date SHA_deg_from_DOY_lat daylight_from_SHA
     None None (Some (Scalar 100)) (Some (TimeScalar (Str ''junk''))) None = Inr (Scalar (40 / 3))"
  using C2_supplied_SHA_short_circuits [where parse = parse_iso_date and engine = SHA_deg_from_DOY_lat
          and converter = daylight_from_SHA and x = "Scalar 100" and ss = "[]"
          and day_of_year = None and lat = None and s = 100
          and time_UTC = "Some (TimeScalar (Str ''junk''))" and geometry = None,
          THEN conjunct2, THEN conjunct1]
  by simp

section \<open>The day of year\<close>

text \<open>
  Claim C3: with \<^verbatim>\<open>SHA_deg\<close> and \<^verbatim>\<open>day_of_year\<close> absent and \<^verbatim>\<open>time_UTC\<close> supplied, the day of
  year that the engine receives is derived from \<^verbatim>\<open>time_UTC\<close>. For a single timestamp the
  engine is called with the scalar ordinal day of the datetime that the timestamp reads as
  (the datetime itself, or what the parser makes of the string). For a list or an ndarray it
  is called with the array of the ordinal days, element by element and in the same order.
  A supplied \<^verbatim>\<open>day_of_year\<close> takes precedence: the engine is then called with the supplied
  value, whatever \<^verbatim>\<open>time_UTC\<close> is. In every case the latitude of the call is \<^verbatim>\<open>lat\<close>, or
  \<^verbatim>\<open>geometry.lat\<close> when \<^verbatim>\<open>lat\<close> is absent, and the result is the converter's on what the engine
  returns. This holds for every parser, engine and converter.
\<close>

theorem C3_day_of_year_from_time_UTC:
  "(reads_as parse v dt \<longrightarrow>
      calculate_daylight parse engine converter None lat None (Some (TimeScalar v)) geometry
        = (case engine (Some (Scalar (dayofyear dt)))
                  (case lat of None \<Rightarrow> map_option geometry_lat geometry | Some l \<Rightarrow> Some l) of
             Inl e \<Rightarrow> Inl e
           | Inr sha \<Rightarrow> converter sha))
   \<and> (list_all2 (reads_as parse) vs dts \<longrightarrow>
      calculate_daylight parse engine converter None lat None (Some (TimeList vs)) geometry
        = (case engine (Some (NDArray (map dayofyear dts)))
                  (case lat of None \<Rightarrow> map_option geometry_lat geometry | Some l \<Rightarrow> Some l) of
             Inl e \<Rightarrow> Inl e
           | Inr sha \<Rightarrow> converter sha)
      \<and> calculate_daylight parse engine converter None lat None (Some (TimeArray vs)) geometry
        = (case engine (Some (NDArray (map dayofyear dts)))
                  (case lat of None \<Rightarrow> map_option geometry_lat geometry | Some l \<Rightarrow> Some l) of
             Inl e \<Rightarrow> Inl e
           | Inr sha \<Rightarrow> converter sha))
   \<and> calculate_daylight parse engine converter (Some (DoyValue c)) lat None time_UTC geometry
        = (case engine (Some c)
                  (case lat of None \<Rightarrow> map_option geometry_lat geometry | Some l \<Rightarrow> Some l) of
             Inl e \<Rightarrow> Inl e
           | Inr sha \<Rightarrow> converter sha)
   \<and> calculate_daylight parse engine converter (Some (DoyList xs)) lat None time_UTC geometry
        = (case engine (Some (NDArray xs))
                  (case lat of None \<Rightarrow> map_option geometry_lat geometry | Some l \<Rightarrow> Some l) of
             Inl e \<Rightarrow> Inl e
           | Inr sha \<Rightarrow> converter sha)"
proof (intro conjI impI)
  assume "reads_as parse v dt"
  then have "to_doy parse v = Inr (dayofyear dt)"
    by (rule to_doy_reads_as)
  then show "calculate_daylight parse engine converter None lat None (Some (TimeScalar v)) geometry
        = (case engine (Some (Scalar (dayofyear dt)))
                  (case lat of None \<Rightarrow> map_option geometry_lat geometry | Some l \<Rightarrow> Some l) of
             Inl e \<Rightarrow> Inl e
           | Inr sha \<Rightarrow> converter sha)"
    by (simp add: time_scalar)
next
  assume "list_all2 (reads_as parse) vs dts"
  then have each: "to_doy_each parse vs = Inr (map dayofyear dts)"
    by (rule to_doy_each_reads_as)
  show "calculate_daylight parse engine converter None lat None (Some (TimeList vs)) geometry
        = (case engine (Some (NDArray (map dayofyear dts)))
                  (case lat of None \<Rightarrow> map_option geometry_lat geometry | Some l \<Rightarrow> Some l) of
             Inl e \<Rightarrow> Inl e
           | Inr sha \<Rightarrow> converter sha)"
    using each by (simp add: time_list)
  show "calculate_daylight parse engine converter None lat None (Some (TimeArray vs)) geometry
        = (case engine (Some (NDArray (map dayofyear dts)))
                  (case lat of None \<Rightarrow> map_option geometry_lat geometry | Some l \<Rightarrow> Some l) of
             Inl e \<Rightarrow> Inl e
           | Inr sha \<Rightarrow> converter sha)"
    using each by (simp add: time_array)
next
  show "calculate_daylight parse engine converter (Some (DoyValue c)) lat None time_UTC geometry
        = (case engine (Some c)
                  (case lat of None \<Rightarrow> map_option geometry_lat geometry | Some l \<Rightarrow> Some l) of
             Inl e \<Rightarrow> Inl e
           | Inr sha \<Rightarrow> converter sha)"
    by (rule doy_supplied_value)
next
  show "calculate_daylight parse engine converter (Some (DoyList xs)) lat None time_UTC geometry
        = (case engine (Some (NDArray xs))
                  (case lat of None \<Rightarrow> map_option geometry_lat geometry | Some l \<Rightarrow> Some l) of
             Inl e \<Rightarrow> Inl e
           | Inr sha \<Rightarrow> converter sha)"
    by (rule doy_supplied_list)
qed

text \<open>
  At the list \<^verbatim>\<open>['2025-06-21', datetime(2025, 12, 21)]\<close> and latitude 34 the engine of the
  specification is called with the array of the days 172 and 355, and the result is the
  array of the two daylight values.
\<close>

theorem C3_day_of_year_from_time_UTC_witness:
  "list_all2 (reads_as parse_iso_date) [Str ''2025-06-21'', Datetime december_21]
     [june_21, december_21]
   \<and> calculate_daylight parse_iso_date SHA_deg_from_DOY_lat daylight_from_SHA None (Some (Scalar 34))
       None (Some (TimeList [Str ''2025-06-21'', Datetime december_21])) None
     = (case SHA_deg_from_DOY_lat (Some (NDArray [172, 355])) (Some (Scalar 34)) of
          Inl e \<Rightarrow> Inl e
        | Inr sha \<Rightarrow> daylight_from_SHA sha)
   \<and> calculate_daylight parse_iso_date SHA_deg_from_DOY_lat daylight_from_SHA None (Some (Scalar 34))
       None (Some (TimeList [Str ''2025-06-21'', Datetime december_21])) None
     = Inr (NDArray [daylight_hours (sha_deg 172 34), daylight_hours (sha_deg 355 34)])"
proof -
  have r: "list_all2 (reads_as parse_iso_date) [Str ''2025-06-21'', Datetime december_21]
             [june_21, december_21]"
    by (simp add: reads_as_def parse_june_21)
  have "calculate_daylight parse_iso_date SHA_deg_from_DOY_lat daylight_from_SHA None
          (Some (Scalar 34)) None (Some (TimeList [Str ''2025-06-21'', Datetime december_21])) None
        = (case SHA_deg_from_DOY_lat (Some (NDArray [172, 355])) (Some (Scalar 34)) of
             Inl e \<Rightarrow> Inl e
           | Inr sha \<Rightarrow> daylight_from_SHA sha)"
    using r C3_day_of_year_from_time_UTC [where parse = parse_iso_date
          and engine = SHA_deg_from_DOY_lat and converter = daylight_from_SHA
          and lat = "Some (Scalar 34)" and geometry = None
          and vs = "[Str ''2025-06-21'', Datetime december_21]" and dts = "[june_21, december_21]",
          THEN conjunct2, THEN conjunct1]
    by (simp add: dayofyear_june_21 dayofyear_december_21)
  then show ?thesis
    using r by (simp add: engine_on_array_and_scalar daylight_from_SHA_def)
qed



section \<open>The latitude\<close>

text \<open>
  Claim C5: with \<^verbatim>\<open>SHA_deg\<close> absent, a supplied \<^verbatim>\<open>lat\<close> takes precedence over \<^verbatim>\<open>geometry\<close>: the
  call with \<^verbatim>\<open>lat\<close> supplied returns the same with and without a geometry, and the engine
  receives \<^verbatim>\<open>lat\<close>. Only when \<^verbatim>\<open>lat\<close> is \<^verbatim>\<open>None\<close> and a geometry is given is the geometry's
  latitude read, and the call is then the call with \<^verbatim>\<open>lat = geometry.lat\<close>: the engine
  receives \<^verbatim>\<open>geometry.lat\<close>. The geometry is an argument that the function reads; the source
  has no assignment to it, and the function returns nothing but the daylight hours.
\<close>

theorem C5_lat_precedes_geometry:
  "calculate_daylight parse engine converter day_of_year (Some l) None time_UTC geometry
     = calculate_daylight parse engine converter day_of_year (Some l) None time_UTC None
   \<and> calculate_daylight parse engine converter day_of_year None None time_UTC (Some g)
     = calculate_daylight parse engine converter day_of_year (Some (geometry_lat g)) None time_UTC None
   \<and> calculate_daylight parse engine converter (Some (DoyValue v)) (Some l) None time_UTC geometry
     = (case engine (Some v) (Some l) of Inl e \<Rightarrow> Inl e | Inr sha \<Rightarrow> converter sha)
   \<and> calculate_daylight parse engine converter (Some (DoyValue v)) None None time_UTC (Some g)
     = (case engine (Some v) (Some (geometry_lat g)) of Inl e \<Rightarrow> Inl e | Inr sha \<Rightarrow> converter sha)"
  by (simp add: calculate_daylight_def)

theorem C5_lat_precedes_geometry_witness:
  "calculate_daylight parse_iso_date SHA_deg_from_DOY_lat daylight_from_SHA
     (Some (DoyValue (Scalar 172))) None None None (Some \<lparr>geometry_lat = Scalar 34\<rparr>)
   = Inr (Scalar (daylight_hours (sha_deg 172 34)))"
  using C5_lat_precedes_geometry [where parse = parse_iso_date and engine = SHA_deg_from_DOY_lat
          and converter = daylight_from_SHA and day_of_year = "Some (DoyValue (Scalar 172))"
          and time_UTC = None and g = "\<lparr>geometry_lat = Scalar 34\<rparr>", THEN conjunct2, THEN conjunct1]
  by (simp add: scalar_pipeline)

section \<open>Lists become arrays\<close>

text \<open>
  Claim C6: before the engine is invoked, a \<^verbatim>\<open>day_of_year\<close> supplied as a plain list is
  turned into an ndarray with the same elements: the call with the list is the call with
  that array, and the engine receives the array. A \<^verbatim>\<open>day_of_year\<close> that is already a scalar
  or a container reaches the engine unchanged.
\<close>

theorem C6_list_day_of_year_becomes_array:
  "calculate_daylight parse engine converter (Some (DoyList xs)) lat None time_UTC geometry
     = calculate_daylight parse engine converter (Some (DoyValue (NDArray xs))) lat None time_UTC geometry
   \<and> calculate_daylight parse engine converter (Some (DoyList xs)) (Some l) None time_UTC geometry
     = (case engine (Some (NDArray xs)) (Some l) of Inl e \<Rightarrow> Inl e | Inr sha \<Rightarrow> converter sha)
   \<and> calculate_daylight parse engine converter (Some (DoyValue v)) (Some l) None time_UTC geometry
     = (case engine (Some v) (Some l) of Inl e \<Rightarrow> Inl e | Inr sha \<Rightarrow> converter sha)"
  by (simp add: doy_supplied_value doy_supplied_list)

theorem C6_list_day_of_year_becomes_array_witness:
  "calculate_daylight parse_iso_date SHA_deg_from_DOY_lat daylight_from_SHA
     (Some (DoyList [172, 355])) (Some (Scalar 34)) None None None
   = Inr (NDArray [daylight_hours (sha_deg 172 34), daylight_hours (sha_deg 355 34)])"
  using C6_list_day_of_year_becomes_array [where parse = parse_iso_date
          and engine = SHA_deg_from_DOY_lat and converter = daylight_from_SHA and xs = "[172, 355]"
          and l = "Scalar 34" and time_UTC = None and geometry = None, THEN conjunct2, THEN conjunct1]
  by (simp add: engine_on_array_and_scalar daylight_from_SHA_def)

section \<open>Timestamps that do not parse\<close>

text \<open>
  Claim C7: with \<^verbatim>\<open>SHA_deg\<close> and \<^verbatim>\<open>day_of_year\<close> absent, a \<^verbatim>\<open>time_UTC\<close> string that the parser
  rejects makes \<^verbatim>\<open>calculate_daylight\<close> raise the parser's error, with the parser's message
  unchanged, and return no daylight value, whatever the other arguments, the engine and the
  converter. The same holds for the first such string of a list or an ndarray whose earlier
  elements all read as datetimes.
\<close>

theorem C7_unparsable_timestamp_propagates:
  assumes "parse s = Inl msg"
  shows "calculate_daylight parse engine converter None lat None (Some (TimeScalar (Str s))) geometry
           = Inl (UnparsableTimestamp msg)
         \<and> (list_all2 (reads_as parse) pre dts \<longrightarrow>
              calculate_daylight parse engine converter None lat None
                (Some (TimeList (pre @ Str s # post))) geometry = Inl (UnparsableTimestamp msg)
              \<and> calculate_daylight parse engine converter None lat None
                (Some (TimeArray (pre @ Str s # post))) geometry = Inl (UnparsableTimestamp msg))"
proof -
  have "to_doy parse (Str s) = Inl (UnparsableTimestamp msg)"
    using assms by (simp add: to_doy_def)
  then show ?thesis
    using assms by (simp add: time_scalar time_list time_array to_doy_each_first_failure)
qed

theorem C7_unparsable_timestamp_propagates_witness:
  "parse_iso_date ''junk'' = Inl ''Unknown string format: junk''
   \<and> calculate_daylight parse_iso_date SHA_deg_from_DOY_lat daylight_from_SHA None (Some (Scalar 34))
       None (Some (TimeList [Str ''2025-06-21'', Str ''junk'', Str ''2025-12-21''])) None
     = Inl (UnparsableTimestamp ''Unknown string format: junk'')"
proof -
  have r: "list_all2 (reads_as parse_iso_date) [Str ''2025-06-21''] [june_21]"
    by (simp add: reads_as_def parse_june_21)
  show ?thesis
    using parse_junk r
      C7_unparsable_timestamp_propagates [where parse = parse_iso_date and s = "''junk''"
          and msg = "''Unknown string format: junk''" and pre = "[Str ''2025-06-21'']"
          and dts = "[june_21]" and post = "[Str ''2025-12-21'']" and lat = "Some (Scalar 34)"
          and geometry = None and engine = SHA_deg_from_DOY_lat and converter = daylight_from_SHA]
    by simp
qed

section \<open>Vectorised and scalar calls\<close>

text \<open>
  Claim C8: for every scalar latitude \<open>L\<close> and every parser that reads the two strings,
  \<^verbatim>\<open>calculate_daylight(time_UTC=['2025-06-21','2025-12-21'], lat=L)\<close> returns an array of two
  elements; the first is the value of \<^verbatim>\<open>calculate_daylight(time_UTC='2025-06-21', lat=L)\<close>
  and the second the value of \<^verbatim>\<open>calculate_daylight(time_UTC='2025-12-21', lat=L)\<close>.
\<close>

theorem C8_vectorised_matches_scalar_calls:
  assumes "parse ''2025-06-21'' = Inr june" and "parse ''2025-12-21'' = Inr december"
  shows "\<exists>a b.
           calculate_daylight parse SHA_deg_from_DOY_lat daylight_from_SHA None (Some (Scalar L)) None
             (Some (TimeList [Str ''2025-06-21'', Str ''2025-12-21''])) None = Inr (NDArray [a, b])
         \<and> calculate_daylight parse SHA_deg_from_DOY_lat daylight_from_SHA None (Some (Scalar L)) None
             (Some (TimeScalar (Str ''2025-06-21''))) None = Inr (Scalar a)
         \<and> calculate_daylight parse SHA_deg_from_DOY_lat daylight_from_SHA None (Some (Scalar L)) None
             (Some (TimeScalar (Str ''2025-12-21''))) None = Inr (Scalar b)
         \<and> a = daylight_hours (sha_deg (dayofyear june) L)
         \<and> b = daylight_hours (sha_deg (dayofyear december) L)"
  using assms
  by (simp add: time_list time_scalar to_doy_def engine_on_scalars engine_on_array_and_scalar
        daylight_from_SHA_def)

theorem C8_vectorised_matches_scalar_calls_witness:
  "parse_iso_date ''2025-06-21'' = Inr june_21 \<and> parse_iso_date ''2025-12-21'' = Inr december_21
   \<and> (\<exists>a b.
           calculate_daylight parse_iso_date SHA_deg_from_DOY_lat daylight_from_SHA None
             (Some (Scalar 34)) None
             (Some (TimeList [Str ''2025-06-21'', Str ''2025-12-21''])) None = Inr (NDArray [a, b])
         \<and> calculate_daylight parse_iso_date SHA_deg_from_DOY_lat daylight_from_SHA None
             (Some (Scalar 34)) None
             (Some (TimeScalar (Str ''2025-06-21''))) None = Inr (Scalar a)
         \<and> calculate_daylight parse_iso_date SHA_deg_from_DOY_lat daylight_from_SHA None
             (Some (Scalar 34)) None
             (Some (TimeScalar (Str ''2025-12-21''))) None = Inr (Scalar b)
         \<and> a = daylight_hours (sha_deg 172 34) \<and> b = daylight_hours (sha_deg 355 34))"
  using C8_vectorised_matches_scalar_calls [where parse = parse_iso_date and june = june_21
          and december = december_21 and L = 34]
        parse_june_21 parse_december_21
  by (simp add: dayofyear_june_21 dayofyear_december_21)

section \<open>The range of the result\<close>

text \<open>
  Claim C9: for every latitude in \<open>[-66, 66]\<close> and every day of year in \<open>[1, 366]\<close>,
  \<^verbatim>\<open>calculate_daylight(day_of_year=d, lat=L)\<close> returns \<open>daylight_hours (sha_deg d L)\<close>, which lies
  in \<open>[0, 24]\<close>, because the engine clamps the cosine of the hour angle to \<open>[-1, 1]\<close> before
  the inverse cosine, so that the sunrise hour angle lies in \<open>[0, 180]\<close> degrees.
\<close>

theorem C9_daylight_within_a_day:
  assumes "- 66 \<le> L" and "L \<le> 66" and "1 \<le> d" and "d \<le> 366"
  shows "\<exists>h. calculate_daylight parse SHA_deg_from_DOY_lat daylight_from_SHA
                (Some (DoyValue (Scalar d))) (Some (Scalar L)) None time_UTC geometry = Inr (Scalar h)
             \<and> h = daylight_hours (sha_deg d L) \<and> 0 \<le> h \<and> h \<le> 24
             \<and> 0 \<le> sha_deg d L \<and> sha_deg d L \<le> 180"
  using sha_deg_bounds [of d L] daylight_bounds [of d L] by (simp add: scalar_pipeline)

theorem C9_daylight_within_a_day_witness:
  "- 66 \<le> (34::real) \<and> (34::real) \<le> 66 \<and> 1 \<le> (172::int) \<and> (172::int) \<le> 366
   \<and> (\<exists>h. calculate_daylight parse_iso_date SHA_deg_from_DOY_lat daylight_from_SHA
                (Some (DoyValue (Scalar 172))) (Some (Scalar 34)) None None None = Inr (Scalar h)
             \<and> 0 \<le> h \<and> h \<le> 24)"
proof -
  have h: "- 66 \<le> (34::real)" "(34::real) \<le> 66" "1 \<le> (172::int)" "(172::int) \<le> 366"
    by simp_all
  show ?thesis
    using h C9_daylight_within_a_day [where L = 34 and d = 172 and parse = parse_iso_date
          and time_UTC = None and geometry = None]
    by simp
qed

section \<open>A supplied day of year hides the timestamp\<close>

text \<open>
  Claim C10: whenever \<^verbatim>\<open>day_of_year\<close> is supplied, \<^verbatim>\<open>time_UTC\<close> has no effect on the result or
  on the errors: two calls that differ only in \<^verbatim>\<open>time_UTC\<close> return the same, and so do calls
  with different parsers, so \<^verbatim>\<open>time_UTC\<close> is never parsed and a string no parser accepts
  raises nothing.
\<close>

theorem C10_time_UTC_unused_when_day_of_year_supplied:
  "calculate_daylight parse engine converter (Some d) lat SHA_deg time_UTC geometry
     = calculate_daylight parse' engine converter (Some d) lat SHA_deg time_UTC' geometry"
  by (cases SHA_deg; cases d) (simp_all add: SHA_supplied doy_supplied_value doy_supplied_list)

theorem C10_time_UTC_unused_when_day_of_year_supplied_witness:
  "calculate_daylight parse_iso_date SHA_deg_from_DOY_lat daylight_from_SHA
     (Some (DoyValue (Scalar 172))) (Some (Scalar 34)) None (Some (TimeScalar (Str ''junk''))) None
   = calculate_daylight parse_iso_date SHA_deg_from_DOY_lat daylight_from_SHA
     (Some (DoyValue (Scalar 172))) (Some (Scalar 34)) None None None
   \<and> calculate_daylight parse_iso_date SHA_deg_from_DOY_lat daylight_from_SHA
     (Some (DoyValue (Scalar 172))) (Some (Scalar 34)) None (Some (TimeScalar (Str ''junk''))) None
   = Inr (Scalar (daylight_hours (sha_deg 172 34)))"
  using C10_time_UTC_unused_when_day_of_year_supplied [where parse = parse_iso_date
          and parse' = parse_iso_date and engine = SHA_deg_from_DOY_lat
          and converter = daylight_from_SHA and d = "DoyValue (Scalar 172)" and lat = "Some (Scalar 34)"
          and SHA_deg = None and time_UTC = "Some (TimeScalar (Str ''junk''))" and time_UTC' = None
          and geometry = None]
  by (simp add: scalar_pipeline)

end
